theory Spec2Isabelle
  imports Complex_Main "HOL-Library.Word" "HOL-Library.Sublist" "HOL-Library.Signed_Division"
begin

section \<open>Strings and numbers of the host language\<close>

text \<open>
  A TypeScript string is a sequence of UTF-16 code units; \<open>charCodeAt\<close> reads one of
  them as a number between 0 and 65535 and \<open>length\<close> counts them.  String literals of
  the source are written with \<open>js\<close>.
\<close>

type_synonym jsstring = "16 word list"

definition js :: "string \<Rightarrow> jsstring" where
  "js s = map of_char s"

text \<open>
  A TypeScript number is a double.  The functions below only compare a number with
  zero and print it with \<open>toFixed\<close>, and both are defined by the language standard on
  the exact mathematical value, so a finite number is modelled by the rational it
  denotes (every finite double is one; the two zeros are identified, which neither
  \<open>>=\<close> nor \<open>toFixed\<close> can tell apart).
\<close>

datatype number = NaN | PosInfinity | NegInfinity | Finite rat

text \<open>Array indexing: \<open>xs[i]\<close> is \<open>undefined\<close> (here \<open>None\<close>) outside the array.\<close>

definition index :: "'a list \<Rightarrow> int \<Rightarrow> 'a option" where
  "index xs i = (if 0 \<le> i \<and> i < int (length xs) then Some (xs ! nat i) else None)"

definition endsWith :: "jsstring \<Rightarrow> jsstring \<Rightarrow> bool" where
  "endsWith s suff =
     (length suff \<le> length s \<and> drop (length s - length suff) s = suff)"

section \<open>The view: row colours\<close>

datatype Color = Blue | Green | Magenta | Orange | Purple | Red | Yellow | PrimaryText

text \<open>
  \<open>ticker.split('').reduce((acc, char) => acc + char.charCodeAt(0), 0)\<close>: a left fold
  over the code units, starting from 0.
\<close>

definition charCodeSum :: "jsstring \<Rightarrow> int" where
  "charCodeSum ticker = foldl (\<lambda>acc char. acc + uint char) 0 ticker"

definition colors :: "Color list" where
  "colors = [Blue, Green, Magenta, Orange, Purple, Red, Yellow, PrimaryText]"

text \<open>
  The remainder operator \<open>%\<close> of the source takes the sign of its left operand; on
  \<open>int\<close> that is \<open>smod\<close>, not \<open>mod\<close>.
\<close>

definition getColorForCrypto :: "jsstring \<Rightarrow> Color option" where
  "getColorForCrypto ticker =
     (let hash = charCodeSum ticker
      in index colors (hash smod int (length colors)))"

section \<open>The formatters module: colour by table\<close>

text \<open>
  \<open>symbol.replace(/USDT$|USD$/, "")\<close> removes one trailing \<open>USDT\<close>, or else one
  trailing \<open>USD\<close>.
\<close>

definition stripQuoteCurrency :: "jsstring \<Rightarrow> jsstring" where
  "stripQuoteCurrency symbol =
     (if endsWith symbol (js ''USDT'') then take (length symbol - 4) symbol
      else if endsWith symbol (js ''USD'') then take (length symbol - 3) symbol
      else symbol)"

definition colorMap :: "(jsstring \<times> jsstring) list" where
  "colorMap =
     [(js ''BTC'', js ''#f7931a''),
      (js ''ETH'', js ''#627eea''),
      (js ''ADA'', js ''#0033ad''),
      (js ''XRP'', js ''#00aae4''),
      (js ''SOL'', js ''#14f195''),
      (js ''DOGE'', js ''#c3a634''),
      (js ''DOT'', js ''#e6007a''),
      (js ''USDT'', js ''#26a17b'')]"

text \<open>
  \<open>colorMap\<close> is an object literal, so besides its own 8 keys it has the properties it
  inherits from \<open>Object.prototype\<close>, under these names.  Their values are functions (for
  \<open>__proto__\<close>, the prototype object itself).
\<close>

definition objectPrototypeKeys :: "jsstring list" where
  "objectPrototypeKeys =
     [js ''constructor'', js ''__defineGetter__'', js ''__defineSetter__'',
      js ''hasOwnProperty'', js ''__lookupGetter__'', js ''__lookupSetter__'',
      js ''isPrototypeOf'', js ''propertyIsEnumerable'', js ''toString'',
      js ''valueOf'', js ''__proto__'', js ''toLocaleString'']"

text \<open>
  What \<open>colorMap[base] || "#888888"\<close> evaluates to: a hex colour string, or the value of
  the inherited property of the given name.
\<close>

datatype ColorValue = HexColor jsstring | InheritedProperty jsstring

text \<open>
  \<open>colorMap[base] || "#888888"\<close>.  An own key gives its colour, a non-empty string, which
  \<open>||\<close> keeps.  An inherited name gives a function or an object, which is truthy too, so
  \<open>||\<close> keeps it and the default is not reached.  For every other base the read is
  \<open>undefined\<close> and the result is the default colour.
\<close>

definition getColorForCrypto_formatters :: "jsstring \<Rightarrow> ColorValue" where
  "getColorForCrypto_formatters symbol =
     (let base = stripQuoteCurrency symbol
      in case map_of colorMap base of
           Some c \<Rightarrow> HexColor c
         | None \<Rightarrow>
             (if base \<in> set objectPrototypeKeys then InheritedProperty base
              else HexColor (js ''#888888'')))"

section \<open>The view: percentage formatting\<close>

text \<open>The decimal digits of a natural number, most significant first.\<close>

definition digit :: "nat \<Rightarrow> 16 word" where
  "digit d = of_nat (48 + d)"

fun digits :: "nat \<Rightarrow> jsstring" where
  "digits n = (if n < 10 then [digit n] else digits (n div 10) @ [digit (n mod 10)])"

declare digits.simps [simp del]

text \<open>
  \<open>Number.prototype.toFixed(f)\<close> as the language standard defines it.  A value that is
  not finite prints as its name.  Otherwise the sign is split off, and for a magnitude
  below \<open>10^21\<close> the integer \<open>n\<close> nearest to \<open>x * 10^f\<close> (the larger one on a tie) is
  printed; when \<open>f\<close> is not 0 its digits are padded with zeros on the left to \<open>f + 1\<close>
  digits and a point is put before the last \<open>f\<close> of them (\<open>insertPoint\<close>).  A magnitude
  of \<open>10^21\<close> or more is printed by the standard's general number-to-string conversion,
  which depends on the binary representation of the double; it is the parameter
  \<open>ToString\<close>.
\<close>

definition insertPoint :: "nat \<Rightarrow> jsstring \<Rightarrow> jsstring" where
  "insertPoint f m =
     (if f \<noteq> 0 then
        (let k = length m;
             m' = (if k \<le> f then replicate (f + 1 - k) (digit 0) @ m else m);
             k' = (if k \<le> f then f + 1 else k);
             a = take (k' - f) m';
             b = drop (k' - f) m'
         in a @ js ''.'' @ b)
      else m)"

definition toFixed :: "(rat \<Rightarrow> jsstring) \<Rightarrow> number \<Rightarrow> nat \<Rightarrow> jsstring" where
  "toFixed ToString v f =
     (case v of
        NaN \<Rightarrow> js ''NaN''
      | PosInfinity \<Rightarrow> js ''Infinity''
      | NegInfinity \<Rightarrow> js ''-Infinity''
      | Finite x0 \<Rightarrow>
          (let s = (if x0 < 0 then js ''-'' else []);
               x = (if x0 < 0 then - x0 else x0)
           in if x \<ge> 10 ^ 21 then s @ ToString x
              else
                (let n = nat \<lfloor>x * 10 ^ f + 1 / 2\<rfloor>;
                     m = insertPoint f (digits n)
                 in s @ m)))"

definition padToFixedWidth :: "jsstring \<Rightarrow> nat \<Rightarrow> jsstring" where
  "padToFixedWidth v width =
     (if length v \<ge> width then v
      else
        (let spacesToAdd = width - length v;
             leftPad = spacesToAdd div 2;
             rightPad = spacesToAdd - leftPad
         in replicate leftPad (of_char CHR '' '') @ v @ replicate rightPad (of_char CHR '' '')))"

definition formatPercentageChange :: "(rat \<Rightarrow> jsstring) \<Rightarrow> number \<Rightarrow> bool \<Rightarrow> jsstring" where
  "formatPercentageChange ToString change isPositive =
     (let formattedValue =
            (if isPositive then js ''+'' @ toFixed ToString change 2 @ js ''%''
             else toFixed ToString change 2 @ js ''%'')
      in padToFixedWidth formattedValue 10)"

section \<open>The view: preferences, fetcher choice and the refresh handler\<close>

record Preferences =
  customTickers :: jsstring
  coinmarketcapApiKey :: "jsstring option"
  dataSource :: jsstring

record CryptoPrice =
  symbol :: jsstring
  name :: jsstring
  price :: jsstring
  priceChangePercent1h :: "jsstring option"
  priceChangePercent24h :: "jsstring option"
  priceChangePercent7d :: "jsstring option"
  marketCap :: "jsstring option"
  iconUrl :: "jsstring option"

datatype ToastStyle = Animated | Success | Failure

record Toast =
  style :: ToastStyle
  title :: jsstring
  message :: jsstring

datatype Fetcher = BinancePriceFetcher | CoinMarketCapPriceFetcher jsstring

text \<open>
  The component's state (\<open>useState\<close>), and with it the toasts shown so far, oldest
  first: \<open>showToast\<close> is the only effect of the handler outside the component.
\<close>

record ViewState =
  isLoading :: bool
  prices :: "CryptoPrice list"
  searchText :: jsstring
  selectedCrypto :: "CryptoPrice option"
  toasts :: "Toast list"

definition initialState :: ViewState where
  "initialState =
     \<lparr>isLoading = True, prices = [], searchText = [], selectedCrypto = None, toasts = []\<rparr>"

definition showToast :: "Toast \<Rightarrow> ViewState \<Rightarrow> ViewState" where
  "showToast t st = st\<lparr>toasts := toasts st @ [t]\<rparr>"

text \<open>\<open>!coinmarketcapApiKey\<close>: an absent key and the empty string are both falsy.\<close>

definition keyMissing :: "jsstring option \<Rightarrow> bool" where
  "keyMissing k = (case k of None \<Rightarrow> True | Some s \<Rightarrow> s = [])"

definition apiKeyMissingToast :: Toast where
  "apiKeyMissingToast =
     \<lparr>style = Failure,
      title = js ''CoinMarketCap API Key Missing'',
      message = js ''Please add your API key in extension preferences''\<rparr>"

definition getPriceFetcher :: "Preferences \<Rightarrow> ViewState \<Rightarrow> Fetcher \<times> ViewState" where
  "getPriceFetcher prefs st =
     (if dataSource prefs = js ''coinmarketcap'' then
        (if keyMissing (coinmarketcapApiKey prefs)
         then (BinancePriceFetcher, showToast apiKeyMissingToast st)
         else (CoinMarketCapPriceFetcher (the (coinmarketcapApiKey prefs)), st))
      else (BinancePriceFetcher, st))"

text \<open>
  What awaiting \<open>new GetPricesCommand(priceFetcher, [], dataSource).getPrices(customTickers)\<close>
  can do: deliver a list of quotes, or throw.  A thrown value is an \<open>Error\<close> with its
  message, or any other value.
\<close>

datatype 'v thrown = ErrorObject jsstring | NonError 'v

datatype 'v outcome = Returned "CryptoPrice list" | Threw "'v thrown"

definition noPricesToast :: Toast where
  "noPricesToast =
     \<lparr>style = Failure,
      title = js ''No Prices Found'',
      message = js ''Please check your tickers or API key''\<rparr>"

definition errorToast :: "('v \<Rightarrow> jsstring) \<Rightarrow> 'v thrown \<Rightarrow> Toast" where
  "errorToast String error =
     \<lparr>style = Failure,
      title = js ''Error Loading Prices'',
      message = (case error of ErrorObject m \<Rightarrow> m | NonError v \<Rightarrow> String v)\<rparr>"

text \<open>
  \<open>loadPrices\<close>, with the command's \<open>getPrices\<close> (not part of the view) as the
  parameter \<open>run\<close> and the language's \<open>String(...)\<close> conversion as the parameter
  \<open>String\<close>.  The \<open>try\<close> block is the \<open>Returned\<close> branch, \<open>catch\<close> the \<open>Threw\<close> branch,
  and \<open>finally\<close> the last update.
\<close>

definition loadPrices ::
  "(Fetcher \<Rightarrow> jsstring \<Rightarrow> jsstring \<Rightarrow> 'v outcome) \<Rightarrow> ('v \<Rightarrow> jsstring) \<Rightarrow>
     Preferences \<Rightarrow> ViewState \<Rightarrow> ViewState" where
  "loadPrices run String prefs st0 =
     (let st1 = st0\<lparr>isLoading := True\<rparr>;
          (priceFetcher, st2) = getPriceFetcher prefs st1;
          st3 =
            (case run priceFetcher (dataSource prefs) (customTickers prefs) of
               Returned results \<Rightarrow>
                 (let st' = (if length results = 0 then showToast noPricesToast st2 else st2)
                  in st'\<lparr>prices := results\<rparr>)
             | Threw error \<Rightarrow> showToast (errorToast String error) st2)
      in st3\<lparr>isLoading := False\<rparr>)"

section \<open>The prices command\<close>

text \<open>
  The view calls \<open>getPrices\<close> and \<open>filterPrices\<close> of \<open>GetPricesCommand\<close>, whose module
  (\<open>commands/get-prices-command\<close>) is not among the sources at hand.  The definitions
  of this section follow the specification's description of the command.
\<close>

text \<open>Modelled from the spec: the case folding behind \<open>filterPrices\<close>'s
  "case-insensitive" match (module \<open>commands/get-prices-command\<close> is missing); the
  letters \<open>A\<close> to \<open>Z\<close> are folded to \<open>a\<close> to \<open>z\<close>, every other code unit is kept.\<close>

definition toLowerCase :: "jsstring \<Rightarrow> jsstring" where
  "toLowerCase s = map (\<lambda>c. if 65 \<le> c \<and> c \<le> 90 then c + 32 else c) s"

text \<open>Modelled from the spec: the "substring match" of \<open>filterPrices\<close> (module
  \<open>commands/get-prices-command\<close> is missing), searching the needle at every position
  of the text, from the left.\<close>

fun includes_str :: "jsstring \<Rightarrow> jsstring \<Rightarrow> bool" where
  "includes_str [] needle = (needle = [])"
| "includes_str (c # cs) needle = (prefix needle (c # cs) \<or> includes_str cs needle)"

text \<open>Modelled from the spec: \<open>filterPrices(quotes, searchText)\<close> of the missing module
  \<open>commands/get-prices-command\<close>: "returns the subsequence of quotes whose symbol or
  name contains the search text (case-insensitive substring match)".\<close>

definition matchesSearch :: "jsstring \<Rightarrow> CryptoPrice \<Rightarrow> bool" where
  "matchesSearch search q =
     (includes_str (toLowerCase (symbol q)) (toLowerCase search) \<or>
      includes_str (toLowerCase (name q)) (toLowerCase search))"

text \<open>Modelled from the spec: \<open>filterPrices\<close> of the missing module
  \<open>commands/get-prices-command\<close>, one pass over the quotes in their order.\<close>

fun filterPrices :: "CryptoPrice list \<Rightarrow> jsstring \<Rightarrow> CryptoPrice list" where
  "filterPrices [] search = []"
| "filterPrices (q # quotes) search =
     (if matchesSearch search q then q # filterPrices quotes search
      else filterPrices quotes search)"

text \<open>Modelled from the spec: the suffix step of \<open>getPrices\<close> (module
  \<open>commands/get-prices-command\<close> is missing): "appends the source's quote-currency
  suffix if absent".  The suffix itself is not named by the specification and is a
  parameter.\<close>

definition ensureSuffix :: "jsstring \<Rightarrow> jsstring \<Rightarrow> jsstring" where
  "ensureSuffix quoteSuffix ticker =
     (if endsWith ticker quoteSuffix then ticker else ticker @ quoteSuffix)"

text \<open>Modelled from the spec: splitting the "comma-separated" ticker list of
  \<open>getPrices\<close> (module \<open>commands/get-prices-command\<close> is missing) at every separator.\<close>

fun splitOn :: "16 word \<Rightarrow> jsstring \<Rightarrow> jsstring list" where
  "splitOn sep [] = [[]]"
| "splitOn sep (c # cs) =
     (if c = sep then [] # splitOn sep cs
      else (case splitOn sep cs of [] \<Rightarrow> [[c]] | p # ps \<Rightarrow> (c # p) # ps))"

text \<open>Modelled from the spec: "trims whitespace" in \<open>getPrices\<close> (module
  \<open>commands/get-prices-command\<close> is missing): blanks, tabs and line breaks are removed
  at both ends.\<close>

definition isSpace :: "16 word \<Rightarrow> bool" where
  "isSpace c = (c = 32 \<or> (9 \<le> c \<and> c \<le> 13))"

text \<open>Modelled from the spec: see \<open>isSpace\<close>; module \<open>commands/get-prices-command\<close>
  is missing.\<close>

definition trim :: "jsstring \<Rightarrow> jsstring" where
  "trim s = rev (dropWhile isSpace (rev (dropWhile isSpace s)))"

text \<open>Modelled from the spec: the "case-insensitive symbol list" of \<open>getPrices\<close>
  (module \<open>commands/get-prices-command\<close> is missing): symbols are compared in upper
  case.\<close>

definition toUpperCase :: "jsstring \<Rightarrow> jsstring" where
  "toUpperCase s = map (\<lambda>c. if 97 \<le> c \<and> c \<le> 122 then c - 32 else c) s"

text \<open>Modelled from the spec: "de-duplicates" in \<open>getPrices\<close> (module
  \<open>commands/get-prices-command\<close> is missing): the first occurrence of a symbol stays.\<close>

definition dedupe :: "jsstring list \<Rightarrow> jsstring list" where
  "dedupe xs = rev (remdups (rev xs))"

text \<open>Modelled from the spec: the parsing step of \<open>getPrices\<close> (module
  \<open>commands/get-prices-command\<close> is missing): "parses a comma-separated,
  case-insensitive symbol list (trims whitespace, de-duplicates, ignores empty
  entries)".\<close>

definition parseTickers :: "jsstring \<Rightarrow> jsstring list" where
  "parseTickers tickerCsv =
     dedupe (filter (\<lambda>t. t \<noteq> [])
       (map (\<lambda>t. toUpperCase (trim t)) (splitOn (of_char CHR '','') tickerCsv)))"

text \<open>Modelled from the spec: \<open>getPrices(tickerCsv)\<close> of the missing module
  \<open>commands/get-prices-command\<close>: it parses the list, "appends the source's
  quote-currency suffix if absent, delegates to the configured fetcher, and returns the
  resulting quote list unmodified"; an empty list of symbols "yields an empty result
  without invoking the fetcher".  The fetcher's behaviour is the parameter
  \<open>fetchPrices\<close>.\<close>

definition getPrices ::
  "jsstring \<Rightarrow> (jsstring list \<Rightarrow> 'v outcome) \<Rightarrow> jsstring \<Rightarrow> 'v outcome" where
  "getPrices quoteSuffix fetchPrices tickerCsv =
     (let symbols = map (ensureSuffix quoteSuffix) (parseTickers tickerCsv)
      in if symbols = [] then Returned [] else fetchPrices symbols)"

text \<open>Modelled from the spec: the command as the view builds it,
  \<open>new GetPricesCommand(priceFetcher, [], dataSource)\<close> (module
  \<open>commands/get-prices-command\<close> is missing).  \<open>suffixOf\<close> gives the quote-currency
  suffix of a data source and \<open>fetch\<close> the behaviour of each fetcher; both are
  parameters.\<close>

definition command ::
  "(jsstring \<Rightarrow> jsstring) \<Rightarrow> (Fetcher \<Rightarrow> jsstring list \<Rightarrow> 'v outcome) \<Rightarrow>
     Fetcher \<Rightarrow> jsstring \<Rightarrow> jsstring \<Rightarrow> 'v outcome" where
  "command suffixOf fetch priceFetcher source tickerCsv =
     getPrices (suffixOf source) (fetch priceFetcher) tickerCsv"

section \<open>Example inputs\<close>

definition prefsExample :: "jsstring \<Rightarrow> jsstring option \<Rightarrow> Preferences" where
  "prefsExample src k = \<lparr>customTickers = js ''BTC,ETH'', coinmarketcapApiKey = k, dataSource = src\<rparr>"

definition btcQuote :: CryptoPrice where
  "btcQuote =
     \<lparr>symbol = js ''BTCUSDT'', name = js ''Bitcoin'', price = js ''67000.12'',
      priceChangePercent1h = Some (js ''0.42''), priceChangePercent24h = Some (js ''-1.30''),
      priceChangePercent7d = None, marketCap = Some (js ''1230000000''), iconUrl = None\<rparr>"

definition ethQuote :: CryptoPrice where
  "ethQuote =
     \<lparr>symbol = js ''ETHUSDT'', name = js ''Ethereum'', price = js ''3500.00'',
      priceChangePercent1h = None, priceChangePercent24h = None,
      priceChangePercent7d = None, marketCap = None, iconUrl = None\<rparr>"

section \<open>Lemmas about the host-language functions\<close>

lemma foldl_uint_sum:
  "foldl (\<lambda>acc char. acc + uint char) a (t :: jsstring) = a + sum_list (map uint t)"
  by (induction t arbitrary: a) simp_all

lemma charCodeSum_sum_list: "charCodeSum t = sum_list (map uint t)"
  by (simp add: charCodeSum_def foldl_uint_sum)

lemma charCodeSum_nonneg: "0 \<le> charCodeSum t"
  unfolding charCodeSum_sum_list by (rule sum_list_nonneg) auto

lemma length_colors: "length colors = 8"
  by (simp add: colors_def)

lemma index_in_range: "0 \<le> i \<Longrightarrow> i < int (length xs) \<Longrightarrow> index xs i = Some (xs ! nat i)"
  by (simp add: index_def)

lemma hash_index_bounds:
  "0 \<le> charCodeSum t smod int (length colors) \<and>
   charCodeSum t smod int (length colors) < int (length colors)"
  using charCodeSum_nonneg [of t]
  by (simp add: length_colors smod_int_compares)

lemma hash_smod_mod: "charCodeSum t smod int (length colors) = charCodeSum t mod 8"
  using charCodeSum_nonneg [of t] by (simp add: length_colors smod_mod_positive)

lemma getColorForCrypto_eq:
  "getColorForCrypto t = Some (colors ! nat (charCodeSum t mod 8))"
  using hash_index_bounds [of t]
  by (simp add: getColorForCrypto_def index_in_range hash_smod_mod)

lemma getColorForCrypto_formatters_inherited:
  "getColorForCrypto_formatters (js ''constructor'') = InheritedProperty (js ''constructor'') \<and>
   getColorForCrypto_formatters (js ''toStringUSDT'') = InheritedProperty (js ''toString'') \<and>
   getColorForCrypto_formatters (js ''ETHUSDT'') = HexColor (js ''#627eea'')"
  by (simp add: getColorForCrypto_formatters_def stripQuoteCurrency_def endsWith_def colorMap_def
      objectPrototypeKeys_def js_def)

lemma endsWith_suffix: "endsWith s suff = suffix suff s"
proof
  assume "endsWith s suff"
  then have "s = take (length s - length suff) s @ suff"
    by (metis endsWith_def append_take_drop_id)
  then show "suffix suff s"
    by (metis suffixI)
next
  assume "suffix suff s"
  then obtain zs where "s = zs @ suff"
    by (auto simp: suffix_def)
  then show "endsWith s suff"
    by (simp add: endsWith_def)
qed

lemma digits_small: "n < 10 \<Longrightarrow> digits n = [digit n]"
  by (simp add: digits.simps)

lemma digits_large: "10 \<le> n \<Longrightarrow> digits n = digits (n div 10) @ [digit (n mod 10)]"
  by (subst digits.simps) simp

lemma digits_nonempty: "digits n \<noteq> []"
  by (subst digits.simps) simp

lemma digits_two: "10 \<le> n \<Longrightarrow> n < 100 \<Longrightarrow> digits n = [digit (n div 10), digit (n mod 10)]"
  by (simp add: digits_large digits_small)

lemma digits_hundreds:
  assumes "100 \<le> n"
  shows "digits n = digits (n div 100) @ [digit (n div 10 mod 10), digit (n mod 10)]"
proof -
  have a: "10 \<le> n" and b: "10 \<le> n div 10"
    using assms by simp_all
  have c: "n div 10 div 10 = n div 100"
    by (simp add: div_mult2_eq)
  show ?thesis
    by (simp add: digits_large [OF a] digits_large [OF b] c)
qed

lemma insertPoint_digits:
  "insertPoint 2 (digits n) = digits (n div 100) @ js ''.'' @ [digit (n div 10 mod 10), digit (n mod 10)]"
proof -
  consider "n < 10" | "10 \<le> n" "n < 100" | "100 \<le> n"
    by linarith
  then show ?thesis
  proof cases
    case 1
    then show ?thesis
      by (simp add: insertPoint_def digits_small Let_def numeral_2_eq_2)
  next
    case 2
    then have "n div 10 mod 10 = n div 10"
      by simp
    with 2 show ?thesis
      by (simp add: insertPoint_def digits_two digits_small Let_def)
  next
    case 3
    then show ?thesis
      by (simp add: insertPoint_def digits_hundreds digits_nonempty Let_def)
  qed
qed

lemma toFixed_two_digits:
  assumes "\<bar>x\<bar> < 10 ^ 21"
  shows "toFixed T (Finite x) 2 =
           (if x < 0 then js ''-'' else []) @
           digits (nat \<lfloor>\<bar>x\<bar> * 100 + 1 / 2\<rfloor> div 100) @ js ''.'' @
           [digit (nat \<lfloor>\<bar>x\<bar> * 100 + 1 / 2\<rfloor> div 10 mod 10),
            digit (nat \<lfloor>\<bar>x\<bar> * 100 + 1 / 2\<rfloor> mod 10)]"
proof (cases "x < 0")
  case True
  then have "\<not> 10 ^ 21 \<le> - x"
    using assms by simp
  with True show ?thesis
    by (simp add: toFixed_def Let_def insertPoint_digits)
next
  case False
  then have "\<not> 10 ^ 21 \<le> x"
    using assms by simp
  with False show ?thesis
    by (simp add: toFixed_def Let_def insertPoint_digits)
qed

lemma length_padToFixedWidth: "length (padToFixedWidth v w) = max (length v) w"
  by (simp add: padToFixedWidth_def Let_def)

lemma padToFixedWidth_long: "width \<le> length v \<Longrightarrow> padToFixedWidth v width = v"
  by (simp add: padToFixedWidth_def)

lemma padToFixedWidth_short:
  "length v < width \<Longrightarrow>
   padToFixedWidth v width =
     replicate ((width - length v) div 2) (of_char CHR '' '') @ v @
     replicate ((width - length v) - (width - length v) div 2) (of_char CHR '' '')"
  by (simp add: padToFixedWidth_def Let_def)

lemma padToFixedWidth_around: "\<exists>l r. padToFixedWidth v width = l @ v @ r"
proof (cases "width \<le> length v")
  case True
  then have "padToFixedWidth v width = [] @ v @ []"
    by (simp add: padToFixedWidth_long)
  then show ?thesis by blast
next
  case False
  then show ?thesis
    using padToFixedWidth_short [of v width] by auto
qed

lemma formatPercentageChange_def2:
  "formatPercentageChange T change pos =
     padToFixedWidth ((if pos then js ''+'' else []) @ toFixed T change 2 @ js ''%'') 10"
  by (simp add: formatPercentageChange_def)

lemma toFixed_123457: "toFixed T (Finite 123457) 2 = js ''123457.00''"
proof -
  have f: "\<lfloor>(24691401 / 2 :: rat)\<rfloor> = 12345700"
    by (rule floor_unique) simp_all
  have d: "digits 123457 = js ''123457''"
    by (simp add: digits_large digits_small digit_def js_def)
  show ?thesis
    using toFixed_two_digits [of 123457 T]
    by (simp add: f d) (simp add: digit_def js_def)
qed

lemma formatPercentageChange_123457:
  "formatPercentageChange T (Finite 123457) True = js ''+123457.00%''"
  by (simp add: formatPercentageChange_def2 toFixed_123457) (simp add: padToFixedWidth_def js_def)

lemma formatPercentageChange_NaN:
  "formatPercentageChange T NaN False = js ''   NaN%   ''"
proof -
  have p: "padToFixedWidth (js ''NaN%'') 10 = js ''   NaN%   ''"
    by code_simp
  have "js ''NaN'' @ js ''%'' = js ''NaN%''"
    by (simp add: js_def)
  then show ?thesis
    by (simp add: formatPercentageChange_def2 toFixed_def p)
qed

lemma formatPercentageChange_5:
  "formatPercentageChange T (Finite 5) True = js ''  +5.00%  ''"
proof -
  have f: "\<lfloor>(1001 / 2 :: rat)\<rfloor> = 500"
    by (rule floor_unique) simp_all
  have t: "toFixed T (Finite 5) 2 = js ''5.00''"
    using toFixed_two_digits [of 5 T]
    by (simp add: f digits_small) (simp add: digit_def js_def)
  have p: "padToFixedWidth (js ''+5.00%'') 10 = js ''  +5.00%  ''"
    by code_simp
  have "js ''+'' @ js ''5.00'' @ js ''%'' = js ''+5.00%''"
    by (simp add: js_def)
  then show ?thesis
    by (simp add: formatPercentageChange_def2 t p)
qed

section \<open>Lemmas about the view and the command\<close>

lemma getPriceFetcher_fst_state:
  "fst (getPriceFetcher prefs st) = fst (getPriceFetcher prefs st')"
  by (simp add: getPriceFetcher_def)

lemma getPriceFetcher_snd_loading:
  "snd (getPriceFetcher prefs (st\<lparr>isLoading := b\<rparr>)) = (snd (getPriceFetcher prefs st))\<lparr>isLoading := b\<rparr>"
  by (simp add: getPriceFetcher_def showToast_def)

lemma getPriceFetcher_prices:
  "prices (snd (getPriceFetcher prefs st)) = prices st"
  by (simp add: getPriceFetcher_def showToast_def)

lemma loadPrices_unfold:
  "loadPrices run String prefs st =
     (case run (fst (getPriceFetcher prefs st)) (dataSource prefs) (customTickers prefs) of
        Returned results \<Rightarrow>
          (if results = [] then showToast noPricesToast (snd (getPriceFetcher prefs st))
           else snd (getPriceFetcher prefs st))\<lparr>prices := results, isLoading := False\<rparr>
      | Threw error \<Rightarrow>
          (showToast (errorToast String error) (snd (getPriceFetcher prefs st)))\<lparr>isLoading := False\<rparr>)"
  by (simp add: loadPrices_def Let_def split_beta getPriceFetcher_snd_loading showToast_def
      getPriceFetcher_fst_state [of prefs "st\<lparr>isLoading := True\<rparr>" st]
      split: outcome.split)

lemma getPrices_delegates:
  "parseTickers csv \<noteq> [] \<Longrightarrow>
   getPrices suff fetchPrices csv = fetchPrices (map (ensureSuffix suff) (parseTickers csv))"
  by (simp add: getPrices_def Let_def)

lemma parseTickers_example: "parseTickers (js ''BTC,ETH'') = [js ''BTC'', js ''ETH'']"
  by code_simp

lemma includes_str_sublist: "includes_str hay needle = sublist needle hay"
  by (induction hay) (simp_all add: sublist_Cons_right)

lemma toLowerCase_Nil: "toLowerCase [] = []"
  by (simp add: toLowerCase_def)

lemma matchesSearch_empty: "matchesSearch [] q"
  by (simp add: matchesSearch_def toLowerCase_Nil includes_str_sublist)

lemma filterPrices_filter: "filterPrices quotes search = filter (matchesSearch search) quotes"
  by (induction quotes) simp_all

lemma filterPrices_example: "filterPrices [btcQuote, ethQuote] (js ''bt'') = [btcQuote]"
  by code_simp

section \<open>The claims\<close>

text \<open>
  Claim C1.  For every list of quotes and every search text, \<open>filterPrices\<close> returns
  exactly the quotes whose symbol or name contains the search text as a substring, letter
  case ignored, in their original order (so the result is a subsequence of the input);
  the empty search text returns the list as it is; and of a BTC and an ETH quote,
  filtering on \<open>bt\<close> keeps only the BTC quote.  The operation is a function of its two
  arguments and touches no state.
\<close>

theorem filterPrices_spec:
  "filterPrices quotes search =
     filter (\<lambda>q. sublist (toLowerCase search) (toLowerCase (symbol q)) \<or>
                 sublist (toLowerCase search) (toLowerCase (name q))) quotes \<and>
   subseq (filterPrices quotes search) quotes \<and>
   filterPrices quotes [] = quotes \<and>
   filterPrices [btcQuote, ethQuote] (js ''bt'') = [btcQuote]"
proof -
  have a: "filterPrices quotes search =
     filter (\<lambda>q. sublist (toLowerCase search) (toLowerCase (symbol q)) \<or>
                 sublist (toLowerCase search) (toLowerCase (name q))) quotes"
  proof -
    have "matchesSearch search =
        (\<lambda>q. sublist (toLowerCase search) (toLowerCase (symbol q)) \<or>
             sublist (toLowerCase search) (toLowerCase (name q)))"
      by (rule ext) (simp add: matchesSearch_def includes_str_sublist)
    then show ?thesis
      by (simp add: filterPrices_filter)
  qed
  have b: "subseq (filterPrices quotes search) quotes"
    by (simp add: filterPrices_filter)
  have c: "filterPrices quotes [] = quotes"
    by (simp add: filterPrices_filter matchesSearch_empty)
  show ?thesis
    by (rule conjI [OF a conjI [OF b conjI [OF c filterPrices_example]]])
qed

text \<open>
  Claim C2, as stated, is about "the" colour-assignment function, and the sources have
  two functions \<open>getColorForCrypto\<close>.  The one of the formatters module does not choose
  the colour by the character-code sum: \<open>BTC\<close> and \<open>TBC\<close> have the same character-code
  sum, and it gives them different colours, \<open>#f7931a\<close> and \<open>#888888\<close>.
\<close>

theorem getColorForCrypto_formatters_not_code_sum:
  "charCodeSum (js ''BTC'') = charCodeSum (js ''TBC'') \<and>
   getColorForCrypto_formatters (js ''BTC'') = HexColor (js ''#f7931a'') \<and>
   getColorForCrypto_formatters (js ''TBC'') = HexColor (js ''#888888'') \<and>
   getColorForCrypto_formatters (js ''BTC'') \<noteq> getColorForCrypto_formatters (js ''TBC'')"
  by (simp add: charCodeSum_def getColorForCrypto_formatters_def stripQuoteCurrency_def
      endsWith_def colorMap_def objectPrototypeKeys_def js_def)

text \<open>
  Claim C2, amended.  For every symbol, the view's \<open>getColorForCrypto\<close> returns one colour
  of its fixed 8-colour palette, the one at the position given by the sum of the symbol's
  character codes modulo 8; so the colour is a function of that sum alone, and two calls
  with the same symbol return the same colour.
\<close>

theorem getColorForCrypto_by_code_sum:
  "getColorForCrypto ticker = Some (colors ! nat (sum_list (map uint ticker) mod 8)) \<and>
   nat (sum_list (map uint ticker) mod 8) < length colors \<and>
   colors ! nat (sum_list (map uint ticker) mod 8) \<in> set colors \<and>
   (\<forall>other. sum_list (map uint other) = sum_list (map uint ticker) \<longrightarrow>
      getColorForCrypto other = getColorForCrypto ticker)"
proof -
  have b: "nat (sum_list (map uint ticker) mod 8) < length colors"
    by (simp add: length_colors nat_less_iff)
  show ?thesis
    using b by (simp add: getColorForCrypto_eq charCodeSum_sum_list)
qed

text \<open>
  Claim C2, amended, at \<open>BTC\<close>: its colour is the second of the palette, and \<open>TBC\<close>,
  with the same character-code sum, gets the same one.
\<close>

theorem getColorForCrypto_by_code_sum_witness:
  "sum_list (map uint (js ''TBC'')) = sum_list (map uint (js ''BTC'')) \<and>
   getColorForCrypto (js ''BTC'') = Some Green \<and>
   getColorForCrypto (js ''TBC'') = getColorForCrypto (js ''BTC'')"
proof -
  have s: "sum_list (map uint (js ''TBC'')) = sum_list (map uint (js ''BTC''))"
    by (simp add: js_def)
  have g: "getColorForCrypto (js ''BTC'') = Some Green"
    using getColorForCrypto_by_code_sum [of "js ''BTC''"] by (simp add: js_def colors_def)
  show ?thesis
    using getColorForCrypto_by_code_sum [of "js ''BTC''"] s g by blast
qed

text \<open>
  Claim C3, as stated, promises a width of 10 characters and 2 fraction digits for every
  number.  \<open>formatPercentageChange(123457, true)\<close> is the 11 characters
  \<open>+123457.00%\<close>, and \<open>formatPercentageChange(NaN, false)\<close> has no fraction digits.
\<close>

theorem formatPercentageChange_not_always_ten_wide:
  "formatPercentageChange (\<lambda>x. []) (Finite 123457) True = js ''+123457.00%'' \<and>
   length (formatPercentageChange (\<lambda>x. []) (Finite 123457) True) = 11 \<and>
   formatPercentageChange (\<lambda>x. []) NaN False = js ''   NaN%   ''"
proof -
  have "length (js ''+123457.00%'') = 11"
    by (simp add: js_def)
  then show ?thesis
    by (simp add: formatPercentageChange_123457 formatPercentageChange_NaN)
qed

text \<open>
  Claim C3, amended.  For every finite change of magnitude below \<open>10^21\<close>, \<open>toFixed(2)\<close>
  prints the sign, the integer part, a point and exactly 2 fraction digits of the value
  rounded to hundredths; \<open>formatPercentageChange\<close> puts \<open>+\<close> before it when the flag is
  true and \<open>%\<close> after it, and pads the result to 10 characters; a text shorter than 10
  characters gets \<open>floor(padding / 2)\<close> blanks on the left and the rest on the right, and
  is then exactly 10 characters long; and \<open>formatPercentageChange(5, true)\<close> is \<open>+5.00%\<close>
  between 2 blanks on each side.
\<close>

theorem formatPercentageChange_layout:
  "(\<bar>x\<bar> < 10 ^ 21 \<longrightarrow>
      toFixed T (Finite x) 2 =
        (if x < 0 then js ''-'' else []) @
        digits (nat \<lfloor>\<bar>x\<bar> * 100 + 1 / 2\<rfloor> div 100) @ js ''.'' @
        [digit (nat \<lfloor>\<bar>x\<bar> * 100 + 1 / 2\<rfloor> div 10 mod 10),
         digit (nat \<lfloor>\<bar>x\<bar> * 100 + 1 / 2\<rfloor> mod 10)]) \<and>
   formatPercentageChange T change pos =
     padToFixedWidth ((if pos then js ''+'' else []) @ toFixed T change 2 @ js ''%'') 10 \<and>
   (length v < 10 \<longrightarrow>
      padToFixedWidth v 10 =
        replicate ((10 - length v) div 2) (of_char CHR '' '') @ v @
        replicate ((10 - length v) - (10 - length v) div 2) (of_char CHR '' '') \<and>
      length (padToFixedWidth v 10) = 10) \<and>
   formatPercentageChange T (Finite 5) True = js ''  +5.00%  ''"
proof -
  have a: "\<bar>x\<bar> < 10 ^ 21 \<longrightarrow>
      toFixed T (Finite x) 2 =
        (if x < 0 then js ''-'' else []) @
        digits (nat \<lfloor>\<bar>x\<bar> * 100 + 1 / 2\<rfloor> div 100) @ js ''.'' @
        [digit (nat \<lfloor>\<bar>x\<bar> * 100 + 1 / 2\<rfloor> div 10 mod 10),
         digit (nat \<lfloor>\<bar>x\<bar> * 100 + 1 / 2\<rfloor> mod 10)]"
    using toFixed_two_digits [of x T] by blast
  have c: "length v < 10 \<longrightarrow>
      padToFixedWidth v 10 =
        replicate ((10 - length v) div 2) (of_char CHR '' '') @ v @
        replicate ((10 - length v) - (10 - length v) div 2) (of_char CHR '' '') \<and>
      length (padToFixedWidth v 10) = 10"
    using padToFixedWidth_short [of v 10] by (simp add: length_padToFixedWidth)
  show ?thesis
    by (rule conjI [OF a conjI [OF formatPercentageChange_def2 conjI [OF c formatPercentageChange_5]]])
qed

text \<open>
  Claim C3, amended, at the change 5 with the flag set.
\<close>

theorem formatPercentageChange_layout_witness:
  "\<bar>5 :: rat\<bar> < 10 ^ 21 \<and>
   length (js ''+5.00%'') < 10 \<and>
   toFixed (\<lambda>x. []) (Finite 5) 2 = js ''5.00'' \<and>
   padToFixedWidth (js ''+5.00%'') 10 = js ''  +5.00%  '' \<and>
   length (padToFixedWidth (js ''+5.00%'') 10) = 10 \<and>
   formatPercentageChange (\<lambda>x. []) (Finite 5) True = js ''  +5.00%  ''"
proof -
  note th = formatPercentageChange_layout [of 5 "\<lambda>x. []" "Finite 5" True "js ''+5.00%''"]
  have h1: "\<bar>5 :: rat\<bar> < 10 ^ 21"
    by simp
  have h2: "length (js ''+5.00%'') < 10"
    by (simp add: js_def)
  have f: "\<lfloor>(1001 / 2 :: rat)\<rfloor> = 500"
    by (rule floor_unique) simp_all
  have t: "toFixed (\<lambda>x. []) (Finite 5) 2 = js ''5.00''"
    using th [THEN conjunct1, THEN mp, OF h1]
    by (simp add: f digits_small digit_def js_def)
  note pad = th [THEN conjunct2, THEN conjunct2, THEN conjunct1, THEN mp, OF h2]
  have r: "replicate 2 (32 :: 16 word) = [32, 32]"
    by (simp add: numeral_2_eq_2)
  have p: "padToFixedWidth (js ''+5.00%'') 10 = js ''  +5.00%  ''"
    using pad [THEN conjunct1] by (simp add: js_def r)
  show ?thesis
    using h1 h2 t p pad [THEN conjunct2] th [THEN conjunct2, THEN conjunct2, THEN conjunct2]
    by blast
qed

text \<open>
  Claim C5.  A symbol that does not end in the quote-currency suffix gets the suffix
  appended, once; a symbol that already ends in it is passed through unchanged; in both
  cases the result ends in the suffix, so applying the step again changes nothing; and
  \<open>getPrices\<close> hands the fetcher the parsed symbols after this step.
\<close>

theorem ensureSuffix_once:
  "(\<not> endsWith ticker quoteSuffix \<longrightarrow> ensureSuffix quoteSuffix ticker = ticker @ quoteSuffix) \<and>
   (endsWith ticker quoteSuffix \<longrightarrow> ensureSuffix quoteSuffix ticker = ticker) \<and>
   endsWith (ensureSuffix quoteSuffix ticker) quoteSuffix \<and>
   ensureSuffix quoteSuffix (ensureSuffix quoteSuffix ticker) = ensureSuffix quoteSuffix ticker \<and>
   endsWith ticker quoteSuffix = suffix quoteSuffix ticker \<and>
   (parseTickers csv \<noteq> [] \<longrightarrow>
      getPrices quoteSuffix fetchPrices csv
        = fetchPrices (map (ensureSuffix quoteSuffix) (parseTickers csv)))"
proof -
  have e: "endsWith (ensureSuffix quoteSuffix ticker) quoteSuffix"
    by (simp add: ensureSuffix_def endsWith_suffix suffix_def)
  then have i: "ensureSuffix quoteSuffix (ensureSuffix quoteSuffix ticker)
                  = ensureSuffix quoteSuffix ticker"
    by (simp add: ensureSuffix_def)
  have g: "parseTickers csv \<noteq> [] \<longrightarrow>
      getPrices quoteSuffix fetchPrices csv
        = fetchPrices (map (ensureSuffix quoteSuffix) (parseTickers csv))"
    by (simp add: getPrices_def Let_def)
  show ?thesis
    using e i g endsWith_suffix [of ticker quoteSuffix]
    by (simp add: ensureSuffix_def)
qed

text \<open>
  Claim C5 at the suffix \<open>USDT\<close>: \<open>BTC\<close> becomes \<open>BTCUSDT\<close>, \<open>BTCUSDT\<close> stays, and the
  ticker list \<open>btc, ethusdt\<close> is looked up as \<open>BTCUSDT\<close> and \<open>ETHUSDT\<close>.
\<close>

theorem ensureSuffix_once_witness:
  "\<not> endsWith (js ''BTC'') (js ''USDT'') \<and>
   ensureSuffix (js ''USDT'') (js ''BTC'') = js ''BTCUSDT'' \<and>
   endsWith (js ''BTCUSDT'') (js ''USDT'') \<and>
   ensureSuffix (js ''USDT'') (js ''BTCUSDT'') = js ''BTCUSDT'' \<and>
   parseTickers (js ''btc, ethusdt'') \<noteq> [] \<and>
   getPrices (js ''USDT'') (\<lambda>syms. Returned (map (\<lambda>s. btcQuote\<lparr>symbol := s\<rparr>) syms)) (js ''btc, ethusdt'')
     = (Returned [btcQuote\<lparr>symbol := js ''BTCUSDT''\<rparr>, btcQuote\<lparr>symbol := js ''ETHUSDT''\<rparr>] :: unit outcome)"
proof -
  have n: "\<not> endsWith (js ''BTC'') (js ''USDT'')"
    by (simp add: endsWith_def js_def)
  have y: "endsWith (js ''BTCUSDT'') (js ''USDT'')"
    by (simp add: endsWith_def js_def)
  have p: "parseTickers (js ''btc, ethusdt'') = [js ''BTC'', js ''ETHUSDT'']"
    by code_simp
  have q: "parseTickers (js ''btc, ethusdt'') \<noteq> []"
    by (simp add: p)
  have a: "js ''BTC'' @ js ''USDT'' = js ''BTCUSDT''"
    by (simp add: js_def)
  have e: "ensureSuffix (js ''USDT'') (js ''ETHUSDT'') = js ''ETHUSDT''"
    by (simp add: ensureSuffix_def endsWith_def js_def)
  note t1 = ensureSuffix_once [of "js ''BTC''" "js ''USDT''" "js ''btc, ethusdt''"
      "\<lambda>syms. (Returned (map (\<lambda>s. btcQuote\<lparr>symbol := s\<rparr>) syms) :: unit outcome)"]
  note t2 = ensureSuffix_once [of "js ''BTCUSDT''" "js ''USDT''" "js ''btc, ethusdt''"
      "\<lambda>syms. (Returned (map (\<lambda>s. btcQuote\<lparr>symbol := s\<rparr>) syms) :: unit outcome)"]
  have r1: "ensureSuffix (js ''USDT'') (js ''BTC'') = js ''BTCUSDT''"
    using t1 [THEN conjunct1, THEN mp, OF n] a by simp
  have r2: "ensureSuffix (js ''USDT'') (js ''BTCUSDT'') = js ''BTCUSDT''"
    using t2 [THEN conjunct2, THEN conjunct1, THEN mp, OF y] by simp
  have r3: "getPrices (js ''USDT'') (\<lambda>syms. Returned (map (\<lambda>s. btcQuote\<lparr>symbol := s\<rparr>) syms)) (js ''btc, ethusdt'')
     = (Returned [btcQuote\<lparr>symbol := js ''BTCUSDT''\<rparr>, btcQuote\<lparr>symbol := js ''ETHUSDT''\<rparr>] :: unit outcome)"
    using t1 [THEN conjunct2, THEN conjunct2, THEN conjunct2, THEN conjunct2, THEN conjunct2,
        THEN mp, OF q]
    by (simp add: p r1 e)
  show ?thesis
    using n y q r1 r2 r3 by blast
qed

text \<open>
  Claim C6.  The fetcher is chosen by the preferences alone.  With the data source
  \<open>coinmarketcap\<close> and no API key (absent or empty), \<open>getPriceFetcher\<close> shows the failure
  toast "CoinMarketCap API Key Missing" and returns the Binance fetcher; with that data
  source and a key it returns the CoinMarketCap fetcher built from the key, and shows
  nothing; with any other data source it returns the Binance fetcher, and shows
  nothing.
\<close>

theorem getPriceFetcher_selection:
  "(dataSource prefs = js ''coinmarketcap'' \<and>
      (coinmarketcapApiKey prefs = None \<or> coinmarketcapApiKey prefs = Some []) \<longrightarrow>
        getPriceFetcher prefs st = (BinancePriceFetcher, showToast apiKeyMissingToast st) \<and>
        toasts (snd (getPriceFetcher prefs st)) = toasts st @ [apiKeyMissingToast] \<and>
        style apiKeyMissingToast = Failure) \<and>
   (dataSource prefs = js ''coinmarketcap'' \<and> coinmarketcapApiKey prefs = Some key \<and> key \<noteq> [] \<longrightarrow>
        getPriceFetcher prefs st = (CoinMarketCapPriceFetcher key, st)) \<and>
   (dataSource prefs \<noteq> js ''coinmarketcap'' \<longrightarrow>
        getPriceFetcher prefs st = (BinancePriceFetcher, st)) \<and>
   fst (getPriceFetcher prefs st) = fst (getPriceFetcher prefs st')"
  by (auto simp add: getPriceFetcher_def keyMissing_def showToast_def apiKeyMissingToast_def)

text \<open>
  Claim C6 at four preference settings: no key, an empty key, a key, and the data source
  \<open>binance\<close>.
\<close>

theorem getPriceFetcher_selection_witness:
  "getPriceFetcher (prefsExample (js ''coinmarketcap'') None) initialState
     = (BinancePriceFetcher, showToast apiKeyMissingToast initialState) \<and>
   getPriceFetcher (prefsExample (js ''coinmarketcap'') (Some [])) initialState
     = (BinancePriceFetcher, showToast apiKeyMissingToast initialState) \<and>
   getPriceFetcher (prefsExample (js ''coinmarketcap'') (Some (js ''k3y''))) initialState
     = (CoinMarketCapPriceFetcher (js ''k3y''), initialState) \<and>
   getPriceFetcher (prefsExample (js ''binance'') (Some (js ''k3y''))) initialState
     = (BinancePriceFetcher, initialState)"
proof -
  have a: "dataSource (prefsExample (js ''coinmarketcap'') k) = js ''coinmarketcap''" for k
    by (simp add: prefsExample_def)
  have b: "dataSource (prefsExample (js ''binance'') k) \<noteq> js ''coinmarketcap''" for k
    by (simp add: prefsExample_def js_def)
  have k: "coinmarketcapApiKey (prefsExample s k) = k" for s k
    by (simp add: prefsExample_def)
  have n: "js ''k3y'' \<noteq> []"
    by (simp add: js_def)
  show ?thesis
    using getPriceFetcher_selection [where prefs = "prefsExample (js ''coinmarketcap'') None"
        and st = initialState]
      getPriceFetcher_selection [where prefs = "prefsExample (js ''coinmarketcap'') (Some [])"
        and st = initialState]
      getPriceFetcher_selection [where prefs = "prefsExample (js ''coinmarketcap'') (Some (js ''k3y''))"
        and key = "js ''k3y''" and st = initialState]
      getPriceFetcher_selection [where prefs = "prefsExample (js ''binance'') (Some (js ''k3y''))"
        and st = initialState]
      a b k n
    by simp
qed

text \<open>
  Claim C7.  Whatever the refresh cycle does, \<open>loadPrices\<close> ends with \<open>isLoading\<close>
  false.  When the cycle throws, exactly one toast is added for it, a failure toast
  titled "Error Loading Prices", whose message is the error's message for an \<open>Error\<close>
  and the stringified value otherwise; the quote list is left as it was.
\<close>

theorem loadPrices_catches_and_returns_idle:
  "isLoading (loadPrices run String prefs st) = False \<and>
   (run (fst (getPriceFetcher prefs st)) (dataSource prefs) (customTickers prefs) = Threw error \<longrightarrow>
      toasts (loadPrices run String prefs st)
        = toasts (snd (getPriceFetcher prefs st)) @ [errorToast String error] \<and>
      prices (loadPrices run String prefs st) = prices st) \<and>
   errorToast String (ErrorObject m)
     = \<lparr>style = Failure, title = js ''Error Loading Prices'', message = m\<rparr> \<and>
   errorToast String (NonError v)
     = \<lparr>style = Failure, title = js ''Error Loading Prices'', message = String v\<rparr>"
  by (simp add: loadPrices_unfold showToast_def errorToast_def getPriceFetcher_prices
      split: outcome.split)

text \<open>
  Claim C7 at a cycle that throws an \<open>Error\<close> with the message "fetch failed", and at
  one that throws \<open>undefined\<close>.
\<close>

theorem loadPrices_catches_and_returns_idle_witness:
  "isLoading (loadPrices (\<lambda>f s t. Threw (ErrorObject (js ''fetch failed''))) (\<lambda>u::unit. js ''undefined'')
      (prefsExample (js ''binance'') None) initialState) = False \<and>
   toasts (loadPrices (\<lambda>f s t. Threw (ErrorObject (js ''fetch failed''))) (\<lambda>u::unit. js ''undefined'')
      (prefsExample (js ''binance'') None) initialState)
     = [\<lparr>style = Failure, title = js ''Error Loading Prices'', message = js ''fetch failed''\<rparr>] \<and>
   toasts (loadPrices (\<lambda>f s t. Threw (NonError ())) (\<lambda>u::unit. js ''undefined'')
      (prefsExample (js ''binance'') None) initialState)
     = [\<lparr>style = Failure, title = js ''Error Loading Prices'', message = js ''undefined''\<rparr>]"
proof -
  have g: "toasts (snd (getPriceFetcher (prefsExample (js ''binance'') None) initialState)) = []"
    by (simp add: getPriceFetcher_def prefsExample_def initialState_def js_def)
  show ?thesis
    using loadPrices_catches_and_returns_idle [where run = "\<lambda>f s t. Threw (ErrorObject (js ''fetch failed''))"
        and String = "\<lambda>u::unit. js ''undefined''" and prefs = "prefsExample (js ''binance'') None"
        and st = initialState and error = "ErrorObject (js ''fetch failed'')"]
      loadPrices_catches_and_returns_idle [where run = "\<lambda>f s t. Threw (NonError ())"
        and String = "\<lambda>u::unit. js ''undefined''" and prefs = "prefsExample (js ''binance'') None"
        and st = initialState and error = "NonError ()"]
      g
    by (simp add: errorToast_def)
qed

text \<open>
  Claim C8.  When the ticker list is not empty and the fetcher returns no quotes for it,
  the command returns the empty list (not an error); \<open>loadPrices\<close> then replaces the
  quote list by the empty list, shows the failure toast "No Prices Found" as its last
  toast, and ends with \<open>isLoading\<close> false.
\<close>

theorem empty_result_notifies:
  assumes "parseTickers (customTickers prefs) \<noteq> []"
    and "fetch (fst (getPriceFetcher prefs st))
           (map (ensureSuffix (suffixOf (dataSource prefs))) (parseTickers (customTickers prefs)))
         = Returned []"
  shows "command suffixOf fetch (fst (getPriceFetcher prefs st)) (dataSource prefs)
           (customTickers prefs) = Returned [] \<and>
         prices (loadPrices (command suffixOf fetch) String prefs st) = [] \<and>
         toasts (loadPrices (command suffixOf fetch) String prefs st)
           = toasts (snd (getPriceFetcher prefs st)) @ [noPricesToast] \<and>
         isLoading (loadPrices (command suffixOf fetch) String prefs st) = False \<and>
         style noPricesToast = Failure"
proof -
  have c: "command suffixOf fetch (fst (getPriceFetcher prefs st)) (dataSource prefs)
             (customTickers prefs) = Returned []"
    using assms by (simp add: command_def getPrices_delegates)
  show ?thesis
    using c by (simp add: loadPrices_unfold showToast_def noPricesToast_def)
qed

text \<open>
  Claim C8 at the tickers \<open>BTC,ETH\<close>, the data source \<open>binance\<close> and a fetcher that finds
  nothing.
\<close>

theorem empty_result_notifies_witness:
  "parseTickers (customTickers (prefsExample (js ''binance'') None)) \<noteq> [] \<and>
   command (\<lambda>s. js ''USDT'') (\<lambda>f syms. Returned []) BinancePriceFetcher (js ''binance'') (js ''BTC,ETH'')
     = (Returned [] :: unit outcome) \<and>
   prices (loadPrices (command (\<lambda>s. js ''USDT'') (\<lambda>f syms. Returned [])) (\<lambda>u::unit. js ''undefined'')
      (prefsExample (js ''binance'') None) initialState) = [] \<and>
   toasts (loadPrices (command (\<lambda>s. js ''USDT'') (\<lambda>f syms. Returned [])) (\<lambda>u::unit. js ''undefined'')
      (prefsExample (js ''binance'') None) initialState) = [noPricesToast]"
proof -
  have p: "parseTickers (customTickers (prefsExample (js ''binance'') None)) \<noteq> []"
    by (simp add: prefsExample_def parseTickers_example)
  have g: "getPriceFetcher (prefsExample (js ''binance'') None) initialState
             = (BinancePriceFetcher, initialState)"
    by (simp add: getPriceFetcher_def prefsExample_def js_def)
  have d: "dataSource (prefsExample (js ''binance'') None) = js ''binance''"
      "customTickers (prefsExample (js ''binance'') None) = js ''BTC,ETH''"
    by (simp_all add: prefsExample_def)
  show ?thesis
    using empty_result_notifies [where prefs = "prefsExample (js ''binance'') None"
        and fetch = "\<lambda>f syms. (Returned [] :: unit outcome)" and suffixOf = "\<lambda>s. js ''USDT''"
        and st = initialState and String = "\<lambda>u::unit. js ''undefined''", OF p]
      p g d
    by (simp add: initialState_def)
qed

text \<open>
  Claim C9.  \<open>padToFixedWidth\<close> returns a value at least as long as the width unchanged;
  its result always contains the value whole and is as long as the longer of value and
  width.  So \<open>formatPercentageChange\<close> is 10 characters long exactly when the rendered
  percentage has at most 10 characters, and it can be longer:
  \<open>formatPercentageChange(123457, true)\<close> is the 11 characters \<open>+123457.00%\<close>.
\<close>

theorem padToFixedWidth_never_truncates:
  "(width \<le> length v \<longrightarrow> padToFixedWidth v width = v) \<and>
   length (padToFixedWidth v width) = max (length v) width \<and>
   (\<exists>l r. padToFixedWidth v width = l @ v @ r) \<and>
   (length (formatPercentageChange T change pos) = 10) =
     (length ((if pos then js ''+'' else []) @ toFixed T change 2 @ js ''%'') \<le> 10) \<and>
   formatPercentageChange T (Finite 123457) True = js ''+123457.00%'' \<and>
   length (formatPercentageChange T (Finite 123457) True) = 11"
proof -
  have a: "(length (formatPercentageChange T change pos) = 10) =
     (length ((if pos then js ''+'' else []) @ toFixed T change 2 @ js ''%'') \<le> 10)"
    unfolding formatPercentageChange_def2 length_padToFixedWidth by linarith
  have b: "length (formatPercentageChange T (Finite 123457) True) = 11"
    by (simp add: formatPercentageChange_123457) (simp add: js_def)
  show ?thesis
    using a b padToFixedWidth_around [of v width]
    by (simp add: padToFixedWidth_long length_padToFixedWidth formatPercentageChange_123457)
qed

text \<open>
  Claim C9 at the 11 characters \<open>+123457.00%\<close> and the width 10.
\<close>

theorem padToFixedWidth_never_truncates_witness:
  "(10::nat) \<le> length (js ''+123457.00%'') \<and>
   padToFixedWidth (js ''+123457.00%'') 10 = js ''+123457.00%'' \<and>
   length (padToFixedWidth (js ''+123457.00%'') 10) = 11"
proof -
  have l: "length (js ''+123457.00%'') = 11"
    by (simp add: js_def)
  show ?thesis
    using padToFixedWidth_never_truncates [of 10 "js ''+123457.00%''" "\<lambda>x. []" NaN False] l
    by simp
qed

text \<open>
  Claim C10.  For every ticker, the empty one included, the view's
  \<open>getColorForCrypto\<close> computes a character-code sum that is not negative; the index
  \<open>hash % colors.length\<close> lies within the 8-element colour array; and the function
  returns one of these 8 colours, never the \<open>undefined\<close> of a read out of range.
\<close>

theorem getColorForCrypto_in_palette:
  "0 \<le> charCodeSum ticker \<and>
   0 \<le> charCodeSum ticker smod int (length colors) \<and>
   charCodeSum ticker smod int (length colors) < int (length colors) \<and>
   length colors = 8 \<and>
   (\<exists>c. getColorForCrypto ticker = Some c \<and> c \<in> set colors) \<and>
   getColorForCrypto [] = Some Blue"
proof -
  have b: "nat (charCodeSum ticker mod 8) < length colors"
    by (simp add: length_colors nat_less_iff)
  have "colors ! nat (charCodeSum ticker mod 8) \<in> set colors"
    using b by (rule nth_mem)
  then have ex: "\<exists>c. getColorForCrypto ticker = Some c \<and> c \<in> set colors"
    by (simp add: getColorForCrypto_eq)
  have e: "getColorForCrypto [] = Some Blue"
    by (simp add: getColorForCrypto_eq charCodeSum_def colors_def)
  show ?thesis
    using charCodeSum_nonneg [of ticker] hash_index_bounds [of ticker] length_colors ex e
    by blast
qed

end
